theory Spec2Isabelle
  imports Main
begin

section \<open>JavaScript values of the plugin's argument\<close>

text \<open>
  \<^verbatim>\<open>$.fn.tappable(options)\<close> of \<^verbatim>\<open>src/jquery.tappable.js\<close> takes any JavaScript value.
  A function value is either the literal \<^verbatim>\<open>function() { return true }\<close> of line 68 or
  a function of the caller, named by a value of type \<open>'f\<close>. An object is the list of
  its own properties, the first binding of a name being the one that is read.
\<close>

datatype 'f jsfun = Const_true | User 'f

datatype 'f jsval =
    JUndefined
  | JNull
  | JBoolean bool
  | JNumber int
  | JString string
  | JFunction "'f jsfun"
  | JObject "(string \<times> 'f jsval) list"

datatype error = TypeError

text \<open>The \<^verbatim>\<open>typeof\<close> operator; \<^verbatim>\<open>typeof null\<close> is \<^verbatim>\<open>'object'\<close>.\<close>

fun typeof :: "'f jsval \<Rightarrow> string" where
  "typeof JUndefined = ''undefined''"
| "typeof JNull = ''object''"
| "typeof (JBoolean b) = ''boolean''"
| "typeof (JNumber n) = ''number''"
| "typeof (JString s) = ''string''"
| "typeof (JFunction f) = ''function''"
| "typeof (JObject ps) = ''object''"

text \<open>Truthiness, as tested by \<^verbatim>\<open>if (cancelOnMove)\<close> on line 141.\<close>

fun truthy :: "'f jsval \<Rightarrow> bool" where
  "truthy JUndefined = False"
| "truthy JNull = False"
| "truthy (JBoolean b) = b"
| "truthy (JNumber n) = (n \<noteq> 0)"
| "truthy (JString s) = (s \<noteq> [])"
| "truthy (JFunction f) = True"
| "truthy (JObject ps) = True"

text \<open>
  Reading a property \<^verbatim>\<open>options.name\<close> where \<^verbatim>\<open>typeof options\<close> is \<^verbatim>\<open>'object'\<close>: a
  missing property reads as \<^verbatim>\<open>undefined\<close>, and reading from \<^verbatim>\<open>null\<close> raises a
  TypeError. The other values never reach a property read in this program.
\<close>

fun get_prop :: "'f jsval \<Rightarrow> string \<Rightarrow> error + 'f jsval" where
  "get_prop (JObject ps) name =
     (case map_of ps name of None \<Rightarrow> Inr JUndefined | Some v \<Rightarrow> Inr v)"
| "get_prop JNull name = Inl TypeError"
| "get_prop JUndefined name = Inl TypeError"
| "get_prop v name = Inr JUndefined"

section \<open>The closure variables of one call of tappable\<close>

record 'f settings =
  callback :: "'f jsval"
  cancelOnMove :: "'f jsval"
  onlyIf :: "'f jsval"
  touchDelay :: "'f jsval"

text \<open>Lines 67-70: the \<^verbatim>\<open>var\<close> declarations; \<^verbatim>\<open>callback\<close> starts undefined.\<close>

definition initial_settings :: "'f settings" where
  "initial_settings =
     \<lparr>callback = JUndefined, cancelOnMove = JBoolean True,
      onlyIf = JFunction Const_true, touchDelay = JNumber 0\<rparr>"

text \<open>Lines 79-89: an option replaces the default when its type is not \<^verbatim>\<open>'undefined'\<close>.\<close>

definition override :: "'f jsval \<Rightarrow> 'f jsval \<Rightarrow> 'f jsval" where
  "override dflt v = (if typeof v \<noteq> ''undefined'' then v else dflt)"

text \<open>Lines 72-92: the \<^verbatim>\<open>switch (typeof options)\<close>.\<close>

definition read_options :: "'f jsval \<Rightarrow> error + 'f settings" where
  "read_options options =
     (if typeof options = ''function'' then
        Inr (initial_settings\<lparr>callback := options\<rparr>)
      else if typeof options = ''object'' then
        (case get_prop options ''callback'' of
           Inl err \<Rightarrow> Inl err
         | Inr cb \<Rightarrow>
        (case get_prop options ''cancelOnMove'' of
           Inl err \<Rightarrow> Inl err
         | Inr com \<Rightarrow>
        (case get_prop options ''onlyIf'' of
           Inl err \<Rightarrow> Inl err
         | Inr oi \<Rightarrow>
        (case get_prop options ''touchDelay'' of
           Inl err \<Rightarrow> Inl err
         | Inr td \<Rightarrow>
             Inr \<lparr>callback = cb,
                  cancelOnMove = override (cancelOnMove initial_settings) com,
                  onlyIf = override (onlyIf initial_settings) oi,
                  touchDelay = override (touchDelay initial_settings) td\<rparr>))))
      else Inr initial_settings)"

section \<open>The element and the page around it\<close>

text \<open>
  An element has an identity, the set of its CSS classes, and everything else that
  \<^verbatim>\<open>onlyIf\<close> may read (\<open>rest\<close>). The markers of the plugin are the three classes
  \<^verbatim>\<open>'touched'\<close>, \<^verbatim>\<open>'touch-started'\<close> and \<^verbatim>\<open>'touch-ended'\<close>. The handlers are bound
  on every element of the jQuery collection, and a handler reads and writes only the
  element it runs on (\<^verbatim>\<open>this\<close>) and the closure variables, which it never assigns;
  so the page is followed for one element of the collection.
\<close>

record ('i, 'w) element =
  ident :: 'i
  classes :: "string set"
  rest :: 'w

definition addClass :: "string \<Rightarrow> ('i, 'w) element \<Rightarrow> ('i, 'w) element" where
  "addClass c e = e\<lparr>classes := insert c (classes e)\<rparr>"

definition removeClass :: "string \<Rightarrow> ('i, 'w) element \<Rightarrow> ('i, 'w) element" where
  "removeClass c e = e\<lparr>classes := classes e - {c}\<rparr>"

definition hasClass :: "string \<Rightarrow> ('i, 'w) element \<Rightarrow> bool" where
  "hasClass c e = (c \<in> classes e)"

text \<open>One \<^verbatim>\<open>callback.call(el, event)\<close>: the function, its receiver and its arguments.\<close>

record ('i, 'f, 'e) invocation =
  fn :: "'f jsfun"
  receiver :: 'i
  args :: "'e list"

text \<open>
  The state the handlers act on: the element, the events captured by the timeouts
  that \<^verbatim>\<open>window.setTimeout\<close> has scheduled and that have not fired yet (oldest first),
  the calls of the callback so far, the events whose default was prevented, and the
  errors that left a handler.
\<close>

record ('i, 'w, 'f, 'e) page =
  el :: "('i, 'w) element"
  timers :: "'e list"
  calls :: "('i, 'f, 'e) invocation list"
  prevented :: "'e list"
  uncaught :: "error list"

definition throw :: "error \<Rightarrow> ('i, 'w, 'f, 'e) page \<Rightarrow> ('i, 'w, 'f, 'e) page" where
  "throw err st = st\<lparr>uncaught := uncaught st @ [err]\<rparr>"

text \<open>
  Calling \<^verbatim>\<open>onlyIf(el)\<close>. What a function of the caller answers is given by \<open>sem\<close>,
  as the truth value of its result on the element as it is at the call; calling a
  value that is not a function raises a TypeError. Functions of the caller are taken
  to return, and to leave the three marker classes alone.
\<close>

fun call_onlyIf ::
  "('f \<Rightarrow> ('i, 'w) element \<Rightarrow> bool) \<Rightarrow> 'f jsval \<Rightarrow> ('i, 'w) element \<Rightarrow> error + bool" where
  "call_onlyIf sem (JFunction Const_true) e = Inr True"
| "call_onlyIf sem (JFunction (User f)) e = Inr (sem f e)"
| "call_onlyIf sem v e = Inl TypeError"

text \<open>\<^verbatim>\<open>callback.call(el, event)\<close>, lines 96 and 152.\<close>

fun call_callback ::
  "'f jsval \<Rightarrow> 'e \<Rightarrow> ('i, 'w, 'f, 'e) page \<Rightarrow> ('i, 'w, 'f, 'e) page" where
  "call_callback (JFunction f) event st =
     st\<lparr>calls := calls st @ [\<lparr>fn = f, receiver = ident (el st), args = [event]\<rparr>]\<rparr>"
| "call_callback v event st = throw TypeError st"

section \<open>The handlers\<close>

text \<open>Lines 94-98. The \<^verbatim>\<open>&&\<close> does not call \<^verbatim>\<open>onlyIf\<close> when the callback is no function.\<close>

definition fireCallback ::
  "'f settings \<Rightarrow> ('f \<Rightarrow> ('i, 'w) element \<Rightarrow> bool) \<Rightarrow> 'e \<Rightarrow>
     ('i, 'w, 'f, 'e) page \<Rightarrow> ('i, 'w, 'f, 'e) page" where
  "fireCallback cfg sem event st =
     (if typeof (callback cfg) = ''function'' then
        (case call_onlyIf sem (onlyIf cfg) (el st) of
           Inl err \<Rightarrow> throw err st
         | Inr ok \<Rightarrow> if ok then call_callback (callback cfg) event st else st)
      else st)"

text \<open>Lines 101-120: the handler of \<^verbatim>\<open>touchstart\<close>; the timeout captures the event.\<close>

definition touchstart ::
  "'f settings \<Rightarrow> ('f \<Rightarrow> ('i, 'w) element \<Rightarrow> bool) \<Rightarrow> 'e \<Rightarrow>
     ('i, 'w, 'f, 'e) page \<Rightarrow> ('i, 'w, 'f, 'e) page" where
  "touchstart cfg sem event st =
     (case call_onlyIf sem (onlyIf cfg) (el st) of
        Inl err \<Rightarrow> throw err st
      | Inr ok \<Rightarrow>
          if ok then
            st\<lparr>el := addClass ''touch-started''
                       (removeClass ''touch-ended'' (removeClass ''touched'' (el st))),
               timers := timers st @ [event]\<rparr>
          else st)"

text \<open>Lines 110-116: the function given to \<^verbatim>\<open>window.setTimeout\<close>, run when it fires.\<close>

definition timeout_callback ::
  "'f settings \<Rightarrow> ('f \<Rightarrow> ('i, 'w) element \<Rightarrow> bool) \<Rightarrow> 'e \<Rightarrow>
     ('i, 'w, 'f, 'e) page \<Rightarrow> ('i, 'w, 'f, 'e) page" where
  "timeout_callback cfg sem event st =
     (if hasClass ''touch-ended'' (el st) then fireCallback cfg sem event st
      else if hasClass ''touch-started'' (el st) then
        st\<lparr>el := addClass ''touched'' (el st)\<rparr>
      else st)"

text \<open>Lines 122-135: the handler of \<^verbatim>\<open>touchend\<close>.\<close>

definition touchend ::
  "'f settings \<Rightarrow> ('f \<Rightarrow> ('i, 'w) element \<Rightarrow> bool) \<Rightarrow> 'e \<Rightarrow>
     ('i, 'w, 'f, 'e) page \<Rightarrow> ('i, 'w, 'f, 'e) page" where
  "touchend cfg sem event st =
     (if hasClass ''touched'' (el st) then
        fireCallback cfg sem event (st\<lparr>el := removeClass ''touched'' (el st)\<rparr>)
      else if hasClass ''touch-started'' (el st) then
        st\<lparr>el := addClass ''touch-ended'' (removeClass ''touch-started'' (el st))\<rparr>
      else st)"

text \<open>Lines 137-139: the handler of \<^verbatim>\<open>click\<close> where touch is supported.\<close>

definition click_suppress :: "'e \<Rightarrow> ('i, 'w, 'f, 'e) page \<Rightarrow> ('i, 'w, 'f, 'e) page" where
  "click_suppress event st = st\<lparr>prevented := prevented st @ [event]\<rparr>"

text \<open>Lines 142-147: the handler of \<^verbatim>\<open>touchmove\<close>.\<close>

definition touchmove :: "('i, 'w, 'f, 'e) page \<Rightarrow> ('i, 'w, 'f, 'e) page" where
  "touchmove st =
     st\<lparr>el := removeClass ''touch-ended''
                (removeClass ''touch-started'' (removeClass ''touched'' (el st)))\<rparr>"

text \<open>Lines 150-154: the handler of \<^verbatim>\<open>click\<close> where touch is not supported.\<close>

definition click_fallback ::
  "'f settings \<Rightarrow> ('f \<Rightarrow> ('i, 'w) element \<Rightarrow> bool) \<Rightarrow> 'e \<Rightarrow>
     ('i, 'w, 'f, 'e) page \<Rightarrow> ('i, 'w, 'f, 'e) page" where
  "click_fallback cfg sem event st =
     (case call_onlyIf sem (onlyIf cfg) (el st) of
        Inl err \<Rightarrow> throw err st
      | Inr ok \<Rightarrow> if ok then call_callback (callback cfg) event st else st)"

section \<open>What the page delivers to the element\<close>

text \<open>
  The event loop runs one handler at a time. \<open>Timeout k\<close> fires the \<open>k\<close>-th of the
  timeouts that are waiting (all of them have the same delay, so a browser fires the
  oldest, \<open>k = 0\<close>; the theorems hold for every order). \<open>Mutate w\<close> is other code
  changing what \<^verbatim>\<open>onlyIf\<close> reads, between two events.
\<close>

datatype ('w, 'e) input =
    TouchStart 'e
  | TouchEnd 'e
  | TouchMove 'e
  | Click 'e
  | Timeout nat
  | Mutate 'w

text \<open>
  Lines 100-155: which handlers are bound, for \<open>touchSupported\<close> of line 64. An event
  with no handler bound, and a timeout that is not waiting, change nothing.
\<close>

fun dispatch ::
  "bool \<Rightarrow> 'f settings \<Rightarrow> ('f \<Rightarrow> ('i, 'w) element \<Rightarrow> bool) \<Rightarrow> ('w, 'e) input \<Rightarrow>
     ('i, 'w, 'f, 'e) page \<Rightarrow> ('i, 'w, 'f, 'e) page" where
  "dispatch touchSupported cfg sem (TouchStart event) st =
     (if touchSupported then touchstart cfg sem event st else st)"
| "dispatch touchSupported cfg sem (TouchEnd event) st =
     (if touchSupported then touchend cfg sem event st else st)"
| "dispatch touchSupported cfg sem (Click event) st =
     (if touchSupported then click_suppress event st
      else if typeof (callback cfg) = ''function'' then click_fallback cfg sem event st
      else st)"
| "dispatch touchSupported cfg sem (TouchMove event) st =
     (if touchSupported \<and> truthy (cancelOnMove cfg) then touchmove st else st)"
| "dispatch touchSupported cfg sem (Timeout k) st =
     (if k < length (timers st) then
        timeout_callback cfg sem (timers st ! k)
          (st\<lparr>timers := take k (timers st) @ drop (Suc k) (timers st)\<rparr>)
      else st)"
| "dispatch touchSupported cfg sem (Mutate w) st = st\<lparr>el := (el st)\<lparr>rest := w\<rparr>\<rparr>"

fun run ::
  "bool \<Rightarrow> 'f settings \<Rightarrow> ('f \<Rightarrow> ('i, 'w) element \<Rightarrow> bool) \<Rightarrow> ('w, 'e) input list \<Rightarrow>
     ('i, 'w, 'f, 'e) page \<Rightarrow> ('i, 'w, 'f, 'e) page" where
  "run touchSupported cfg sem [] st = st"
| "run touchSupported cfg sem (i # is) st =
     run touchSupported cfg sem is (dispatch touchSupported cfg sem i st)"

text \<open>
  The whole of \<^verbatim>\<open>$.fn.tappable\<close> followed by the events of the page: an error raised
  while the options are read leaves the call before any handler is bound.
\<close>

definition tappable ::
  "bool \<Rightarrow> 'f jsval \<Rightarrow> ('f \<Rightarrow> ('i, 'w) element \<Rightarrow> bool) \<Rightarrow> ('w, 'e) input list \<Rightarrow>
     ('i, 'w, 'f, 'e) page \<Rightarrow> ('i, 'w, 'f, 'e) page" where
  "tappable touchSupported options sem inputs st =
     (case read_options options of
        Inl err \<Rightarrow> throw err st
      | Inr cfg \<Rightarrow> run touchSupported cfg sem inputs st)"

text \<open>An element with the given classes, on a page where nothing has happened yet.\<close>

definition fresh :: "'i \<Rightarrow> string set \<Rightarrow> 'w \<Rightarrow> ('i, 'w, 'f, 'e) page" where
  "fresh i cs w =
     \<lparr>el = \<lparr>ident = i, classes = cs, rest = w\<rparr>,
      timers = [], calls = [], prevented = [], uncaught = []\<rparr>"

section \<open>Phases, cycles and example bindings\<close>

text \<open>
  The phases of the specification, read off the marker classes: an element is idle
  when it carries none of the three markers.
\<close>

definition idle :: "('i, 'w) element \<Rightarrow> bool" where
  "idle e = (\<not> hasClass ''touched'' e \<and> \<not> hasClass ''touch-started'' e
             \<and> \<not> hasClass ''touch-ended'' e)"

text \<open>The \<^verbatim>\<open>'touch-ended'\<close> marker is set together with neither of the other two.\<close>

definition exclusive :: "('i, 'w) element \<Rightarrow> bool" where
  "exclusive e = (\<not> (hasClass ''touched'' e \<and> hasClass ''touch-ended'' e)
                  \<and> \<not> (hasClass ''touch-started'' e \<and> hasClass ''touch-ended'' e))"

text \<open>A cycle runs from one \<^verbatim>\<open>touchstart\<close> up to the next.\<close>

fun is_TouchStart :: "('w, 'e) input \<Rightarrow> bool" where
  "is_TouchStart (TouchStart event) = True"
| "is_TouchStart i = False"

text \<open>
  How many calls of the callback the page can still make without a new
  \<^verbatim>\<open>touchstart\<close>: one for the highlight, if it is on, and one for each timeout that
  is waiting.
\<close>

definition owed :: "('i, 'w, 'f, 'e) page \<Rightarrow> nat" where
  "owed st = (if hasClass ''touched'' (el st) then 1 else 0) + length (timers st)"

text \<open>
  Bindings for the concrete runs below. \<open>reads_rest\<close> is an \<^verbatim>\<open>onlyIf\<close> that returns
  a flag of the element, such as its being enabled.
\<close>

definition reads_rest :: "'f \<Rightarrow> ('i, bool) element \<Rightarrow> bool" where
  "reads_rest f e = rest e"

definition example_settings :: "nat settings" where
  "example_settings =
     \<lparr>callback = JFunction (User 7), cancelOnMove = JBoolean True,
      onlyIf = JFunction Const_true, touchDelay = JNumber 150\<rparr>"


definition broken_settings :: "nat settings" where
  "broken_settings =
     \<lparr>callback = JNumber 42, cancelOnMove = JBoolean True,
      onlyIf = JFunction Const_true, touchDelay = JNumber 0\<rparr>"

lemmas handler_defs =
  touchstart_def touchend_def timeout_callback_def fireCallback_def touchmove_def
  click_suppress_def click_fallback_def addClass_def removeClass_def hasClass_def throw_def

section \<open>Basic facts about the handlers\<close>

lemma typeof_function: "typeof v = ''function'' \<longleftrightarrow> (\<exists>f. v = JFunction f)"
  by (cases v) auto

lemma call_onlyIf_function:
  "typeof v = ''function'' \<Longrightarrow> call_onlyIf sem v e \<noteq> Inl err"
  by (cases "(sem, v, e)" rule: call_onlyIf.cases) auto

lemma call_callback_frame [simp]:
  "el (call_callback v ev st) = el st"
  "timers (call_callback v ev st) = timers st"
  "prevented (call_callback v ev st) = prevented st"
  by (cases v; simp add: throw_def)+

lemma fireCallback_frame [simp]:
  "el (fireCallback cfg sem ev st) = el st"
  "timers (fireCallback cfg sem ev st) = timers st"
  "prevented (fireCallback cfg sem ev st) = prevented st"
  by (simp_all add: fireCallback_def throw_def split: sum.splits)

lemma click_fallback_frame [simp]:
  "el (click_fallback cfg sem ev st) = el st"
  "timers (click_fallback cfg sem ev st) = timers st"
  "prevented (click_fallback cfg sem ev st) = prevented st"
  by (simp_all add: click_fallback_def throw_def split: sum.splits)

lemma fireCallback_calls_le:
  "length (calls (fireCallback cfg sem ev st)) \<le> Suc (length (calls st))"
  by (auto simp: fireCallback_def throw_def typeof_function split: sum.splits)

lemma fireCallback_not_callable:
  "typeof (callback cfg) \<noteq> ''function'' \<Longrightarrow> fireCallback cfg sem ev st = st"
  by (simp add: fireCallback_def)

lemma fireCallback_fires:
  "callback cfg = JFunction f \<Longrightarrow> call_onlyIf sem (onlyIf cfg) (el st) = Inr g \<Longrightarrow>
   fireCallback cfg sem ev st =
     (if g then st\<lparr>calls := calls st @ [\<lparr>fn = f, receiver = ident (el st), args = [ev]\<rparr>]\<rparr>
      else st)"
  by (simp add: fireCallback_def)

section \<open>The shorthand form\<close>

text \<open>
  C8. Binding with the bare function \<open>f\<close> gives the same closure variables as binding
  with the object \<^verbatim>\<open>{callback: f}\<close>: the callback is \<open>f\<close>, \<^verbatim>\<open>cancelOnMove\<close> is true, the
  delay is 0 and \<^verbatim>\<open>onlyIf\<close> is the function that returns true; and the two bindings
  behave alike on every page, for every sequence of events, with or without touch
  support.
\<close>

theorem shorthand_equivalent:
  "read_options (JFunction f) = read_options (JObject [(''callback'', JFunction f)])
   \<and> read_options (JFunction f) =
       Inr \<lparr>callback = JFunction f, cancelOnMove = JBoolean True,
            onlyIf = JFunction Const_true, touchDelay = JNumber 0\<rparr>
   \<and> tappable ts (JFunction f) sem inputs st =
       tappable ts (JObject [(''callback'', JFunction f)]) sem inputs st"
  by (simp add: tappable_def read_options_def initial_settings_def override_def)

section \<open>Timeouts left over from an earlier cycle\<close>

text \<open>
  When the element carries none of the three markers, the function given to
  \<^verbatim>\<open>setTimeout\<close> changes nothing, however often it runs and whatever event it
  captured: through the event loop the firing only uses up the timeout.
\<close>

lemma idle_timeout_is_noop:
  assumes "idle (el st)"
  shows "fold (timeout_callback cfg sem) events st = st
       \<and> dispatch ts cfg sem (Timeout k) st =
           (if k < length (timers st)
            then st\<lparr>timers := take k (timers st) @ drop (Suc k) (timers st)\<rparr> else st)"
proof -
  have once: "timeout_callback cfg sem ev s = s" if "idle (el s)" for ev s
    using that by (simp add: idle_def timeout_callback_def)
  have "fold (timeout_callback cfg sem) events st = st"
    using assms by (induction events) (simp_all add: once)
  moreover have "idle (el (st\<lparr>timers := ts'\<rparr>))" for ts'
    using assms by simp
  ultimately show ?thesis
    by (simp add: once)
qed

text \<open>
  C1. A timeout left over from an earlier cycle that fires after the element has
  entered a new cycle is to leave the new cycle as it is. The source schedules a
  timeout at every \<^verbatim>\<open>touchstart\<close> and never cancels one, and the check at fire time
  reads only the classes that the new cycle has set, so it cannot tell the old
  timeout from the new one. On the run below a move cancels the first cycle (the
  header of the source: firing of the callback is cancelled if the user moves their
  finger), and its timeout, for event 1, is still waiting when the second cycle
  starts with event 3. Fired while the second cycle is pending it turns the highlight
  on, before the delay of that cycle has passed; fired after the \<^verbatim>\<open>touchend\<close> of the
  second cycle (event 4) it finds \<^verbatim>\<open>'touch-ended'\<close> and calls the callback with
  event 1 of the cancelled cycle.
\<close>

theorem stale_timeout_acts_on_new_cycle:
  "timers (run True example_settings reads_rest
             [TouchStart 1, TouchMove 2, TouchStart 3]
             (fresh (0::nat) {} True :: (nat, bool, nat, nat) page)) = [1, 3]
   \<and> \<not> hasClass ''touched''
        (el (run True example_settings reads_rest
               [TouchStart 1, TouchMove 2, TouchStart 3]
               (fresh (0::nat) {} True :: (nat, bool, nat, nat) page)))
   \<and> hasClass ''touched''
        (el (run True example_settings reads_rest
               [TouchStart 1, TouchMove 2, TouchStart 3, Timeout 0]
               (fresh (0::nat) {} True :: (nat, bool, nat, nat) page)))
   \<and> timers (run True example_settings reads_rest
             [TouchStart 1, TouchMove 2, TouchStart 3, TouchEnd 4]
             (fresh (0::nat) {} True :: (nat, bool, nat, nat) page)) = [1, 3]
   \<and> calls (run True example_settings reads_rest
             [TouchStart 1, TouchMove 2, TouchStart 3, TouchEnd 4]
             (fresh (0::nat) {} True :: (nat, bool, nat, nat) page)) = []
   \<and> calls (run True example_settings reads_rest
             [TouchStart 1, TouchMove 2, TouchStart 3, TouchEnd 4, Timeout 0]
             (fresh (0::nat) {} True :: (nat, bool, nat, nat) page))
       = [\<lparr>fn = User 7, receiver = 0, args = [1]\<rparr>]"
  by (simp add: example_settings_def fresh_def handler_defs)

section \<open>Calls of the callback in one cycle\<close>

lemma dispatch_owed:
  "\<not> is_TouchStart i \<Longrightarrow>
   length (calls (dispatch True cfg sem i st)) + owed (dispatch True cfg sem i st)
     \<le> length (calls st) + owed st"
proof (cases i)
  case (TouchEnd ev)
  show ?thesis
    using fireCallback_calls_le [of cfg sem ev "st\<lparr>el := removeClass ''touched'' (el st)\<rparr>"]
    by (simp add: TouchEnd owed_def touchend_def addClass_def removeClass_def hasClass_def)
next
  case (Timeout k)
  show ?thesis
  proof (cases "k < length (timers st)")
    case True
    then show ?thesis
      using fireCallback_calls_le
        [of cfg sem "timers st ! k" "st\<lparr>timers := take k (timers st) @ drop (Suc k) (timers st)\<rparr>"]
      by (auto simp: Timeout owed_def timeout_callback_def addClass_def hasClass_def)
  next
    case False
    then show ?thesis by (simp add: Timeout)
  qed
qed (auto simp: owed_def touchmove_def click_suppress_def removeClass_def hasClass_def)

lemma run_owed:
  "\<forall>i\<in>set es. \<not> is_TouchStart i \<Longrightarrow>
   length (calls (run True cfg sem es st)) + owed (run True cfg sem es st)
     \<le> length (calls st) + owed st"
proof (induction es arbitrary: st)
  case Nil
  show ?case by simp
next
  case (Cons i es)
  have "length (calls (run True cfg sem es (dispatch True cfg sem i st)))
          + owed (run True cfg sem es (dispatch True cfg sem i st))
        \<le> length (calls (dispatch True cfg sem i st)) + owed (dispatch True cfg sem i st)"
    using Cons by simp
  also have "\<dots> \<le> length (calls st) + owed st"
    using Cons.prems by (simp add: dispatch_owed)
  finally show ?case by simp
qed

lemma touchstart_owed:
  "length (calls (touchstart cfg sem ev st)) = length (calls st)
   \<and> owed (touchstart cfg sem ev st) \<le> Suc (length (timers st))"
  by (auto simp: touchstart_def owed_def throw_def addClass_def removeClass_def hasClass_def
           split: sum.splits)

text \<open>
  Where touch is supported, between one \<^verbatim>\<open>touchstart\<close> and the next the callback is
  called at most once more than there were timeouts of earlier cycles still waiting
  at that \<^verbatim>\<open>touchstart\<close>: at most once when none was waiting.
\<close>

lemma calls_per_cycle_bounded:
  assumes "\<forall>i\<in>set es. \<not> is_TouchStart i"
  shows "length (calls (run True cfg sem es (touchstart cfg sem ev st)))
           \<le> length (calls st) + 1 + length (timers st)"
proof -
  have "length (calls (run True cfg sem es (touchstart cfg sem ev st)))
          \<le> length (calls (touchstart cfg sem ev st)) + owed (touchstart cfg sem ev st)"
    using run_owed [OF assms, of cfg sem "touchstart cfg sem ev st"] by simp
  also have "\<dots> \<le> length (calls st) + 1 + length (timers st)"
    using touchstart_owed [of cfg sem ev st] by simp
  finally show ?thesis .
qed

text \<open>
  C2. In one cycle the callback is to be called at most once. On the run below the
  first cycle is cancelled by a move and its timeout is never cancelled; after the
  \<^verbatim>\<open>touchstart\<close> with event 3 nothing has been called yet, and the one tap that
  follows (events 3 and 4) is answered by two calls: the timeout of the cancelled
  cycle finds \<^verbatim>\<open>'touch-ended'\<close> and calls the callback with event 1, and
  \<^verbatim>\<open>'touch-ended'\<close> is still set when the timeout of the tap itself fires and calls
  it again with event 3. The timeouts fire oldest first, as a browser fires them.
\<close>

theorem two_calls_in_one_cycle:
  "calls (run True example_settings reads_rest
            [TouchStart 1, TouchMove 2, TouchStart 3]
            (fresh (0::nat) {} True :: (nat, bool, nat, nat) page)) = []
   \<and> calls (run True example_settings reads_rest
            [TouchStart 1, TouchMove 2, TouchStart 3, TouchEnd 4, Timeout 0, Timeout 0]
            (fresh (0::nat) {} True :: (nat, bool, nat, nat) page))
       = [\<lparr>fn = User 7, receiver = 0, args = [1]\<rparr>, \<lparr>fn = User 7, receiver = 0, args = [3]\<rparr>]"
  by (simp add: example_settings_def fresh_def handler_defs)

section \<open>The timeout after an early end\<close>

text \<open>
  C3, as amended. When the timeout fires on an element that carries \<^verbatim>\<open>'touch-ended'\<close>,
  the callback is called, with the event the timeout captured, if and only if
  \<^verbatim>\<open>onlyIf\<close> holds of the element at that moment; the element is left as it is, so
  \<^verbatim>\<open>'touch-ended'\<close> stays set.
\<close>

theorem timeout_after_early_end:
  assumes "hasClass ''touch-ended'' (el st)"
      and "callback cfg = JFunction f"
      and "call_onlyIf sem (onlyIf cfg) (el st) = Inr g"
  shows "el (timeout_callback cfg sem ev st) = el st
       \<and> hasClass ''touch-ended'' (el (timeout_callback cfg sem ev st))
       \<and> calls (timeout_callback cfg sem ev st)
           = calls st @ (if g then [\<lparr>fn = f, receiver = ident (el st), args = [ev]\<rparr>] else [])"
  using assms by (simp add: timeout_callback_def fireCallback_fires)

theorem timeout_after_early_end_witness:
  "hasClass ''touch-ended''
     (el (run True example_settings reads_rest [TouchStart 1, TouchEnd 2]
            (fresh (0::nat) {} True :: (nat, bool, nat, nat) page)))
   \<and> callback example_settings = JFunction (User 7)
   \<and> call_onlyIf reads_rest (onlyIf example_settings)
        (el (run True example_settings reads_rest [TouchStart 1, TouchEnd 2]
               (fresh (0::nat) {} True :: (nat, bool, nat, nat) page))) = Inr True
   \<and> calls (timeout_callback example_settings reads_rest 1
        (run True example_settings reads_rest [TouchStart 1, TouchEnd 2]
           (fresh (0::nat) {} True :: (nat, bool, nat, nat) page)))
       = [\<lparr>fn = User 7, receiver = 0, args = [1]\<rparr>]"
  using timeout_after_early_end
    [of "run True example_settings reads_rest [TouchStart 1, TouchEnd 2]
           (fresh (0::nat) {} True :: (nat, bool, nat, nat) page)"
        example_settings "User 7" reads_rest True 1]
  by (simp add: example_settings_def fresh_def touchstart_def touchend_def addClass_def
        removeClass_def hasClass_def)

text \<open>
  The claim as it stands fails: after a \<^verbatim>\<open>touchstart\<close>, an early \<^verbatim>\<open>touchend\<close> and the
  timeout, the callback has been called and the element still carries
  \<^verbatim>\<open>'touch-ended'\<close>, so it is not idle.
\<close>

theorem timeout_after_early_end_counterexample:
  "calls (run True example_settings reads_rest [TouchStart 1, TouchEnd 2, Timeout 0]
            (fresh (0::nat) {} True :: (nat, bool, nat, nat) page))
     = [\<lparr>fn = User 7, receiver = 0, args = [1]\<rparr>]
   \<and> hasClass ''touch-ended''
        (el (run True example_settings reads_rest [TouchStart 1, TouchEnd 2, Timeout 0]
               (fresh (0::nat) {} True :: (nat, bool, nat, nat) page)))
   \<and> \<not> idle
        (el (run True example_settings reads_rest [TouchStart 1, TouchEnd 2, Timeout 0]
               (fresh (0::nat) {} True :: (nat, bool, nat, nat) page)))"
  by (simp add: example_settings_def fresh_def idle_def handler_defs)

section \<open>Which markers exclude each other\<close>

lemma dispatch_exclusive:
  "exclusive (el st) \<Longrightarrow> exclusive (el (dispatch ts cfg sem i st))"
  by (cases i)
     (auto simp: exclusive_def touchstart_def touchend_def timeout_callback_def touchmove_def
                 click_suppress_def throw_def hasClass_def removeClass_def addClass_def
           split: sum.splits)

text \<open>
  C4, as amended. In every state reached from one where \<^verbatim>\<open>'touch-ended'\<close> is set with
  neither \<^verbatim>\<open>'touched'\<close> nor \<^verbatim>\<open>'touch-started'\<close> (an element without markers, for one),
  by any events and timeouts, \<^verbatim>\<open>'touch-ended'\<close> is again set with neither of them:
  the highlight and the early end never hold together. Nothing is said of
  \<^verbatim>\<open>'touched'\<close> and \<^verbatim>\<open>'touch-started'\<close>, which do hold together.
\<close>

theorem ended_excludes_other_markers:
  assumes "exclusive (el st)"
  shows "exclusive (el (run ts cfg sem es st))"
  using assms
proof (induction es arbitrary: st)
  case Nil
  then show ?case by simp
next
  case (Cons i es)
  then show ?case by (simp add: dispatch_exclusive)
qed

theorem ended_excludes_other_markers_witness:
  "exclusive (el (fresh (0::nat) {} True :: (nat, bool, nat, nat) page))
   \<and> exclusive (el (run True example_settings reads_rest [TouchStart 1, Timeout 0, TouchEnd 2]
                       (fresh (0::nat) {} True :: (nat, bool, nat, nat) page)))"
  using ended_excludes_other_markers
    [of "fresh (0::nat) {} True :: (nat, bool, nat, nat) page" True example_settings reads_rest
        "[TouchStart 1, Timeout 0, TouchEnd 2]"]
  by (simp add: exclusive_def fresh_def hasClass_def)

text \<open>
  The claim as it stands fails: the timeout that turns the highlight on adds
  \<^verbatim>\<open>'touched'\<close> and leaves \<^verbatim>\<open>'touch-started'\<close> in place.
\<close>

theorem two_markers_counterexample:
  "hasClass ''touched''
     (el (run True example_settings reads_rest [TouchStart 1, Timeout 0]
            (fresh (0::nat) {} True :: (nat, bool, nat, nat) page)))
   \<and> hasClass ''touch-started''
     (el (run True example_settings reads_rest [TouchStart 1, Timeout 0]
            (fresh (0::nat) {} True :: (nat, bool, nat, nat) page)))"
  by (simp add: example_settings_def fresh_def handler_defs)

section \<open>Cancelling by a move\<close>

lemma dispatch_idle:
  "idle (el st) \<Longrightarrow> \<not> is_TouchStart i \<Longrightarrow>
   idle (el (dispatch True cfg sem i st)) \<and> calls (dispatch True cfg sem i st) = calls st"
  by (cases i)
     (auto simp: idle_def touchend_def timeout_callback_def touchmove_def click_suppress_def
                 hasClass_def removeClass_def)

lemma run_idle:
  "idle (el st) \<Longrightarrow> \<forall>i\<in>set es. \<not> is_TouchStart i \<Longrightarrow>
   idle (el (run True cfg sem es st)) \<and> calls (run True cfg sem es st) = calls st"
proof (induction es arbitrary: st)
  case Nil
  then show ?case by simp
next
  case (Cons i es)
  have step: "idle (el (dispatch True cfg sem i st))"
    "calls (dispatch True cfg sem i st) = calls st"
    using dispatch_idle [of st i cfg sem] Cons.prems by simp_all
  show ?case
    using Cons.IH [OF step(1)] Cons.prems(2) step(2) by simp
qed

text \<open>
  C6. Where touch is supported and \<^verbatim>\<open>cancelOnMove\<close> is true, a \<^verbatim>\<open>touchmove\<close> removes
  the three markers whatever the state of the element, and calls nothing; and
  whatever follows it before the next \<^verbatim>\<open>touchstart\<close> (timeouts firing, \<^verbatim>\<open>touchend\<close>,
  further moves, clicks) calls nothing either and leaves the element without markers.
\<close>

theorem move_cancels_cycle:
  assumes "truthy (cancelOnMove cfg)" and "\<forall>i\<in>set es. \<not> is_TouchStart i"
  shows "classes (el (dispatch True cfg sem (TouchMove ev) st))
           = classes (el st) - {''touched'', ''touch-started'', ''touch-ended''}
       \<and> calls (dispatch True cfg sem (TouchMove ev) st) = calls st
       \<and> calls (run True cfg sem es (dispatch True cfg sem (TouchMove ev) st)) = calls st
       \<and> idle (el (run True cfg sem es (dispatch True cfg sem (TouchMove ev) st)))"
proof -
  have cleared: "idle (el (touchmove st))"
    by (simp add: idle_def touchmove_def hasClass_def removeClass_def)
  have same: "calls (touchmove st) = calls st"
    by (simp add: touchmove_def)
  have "classes (el (touchmove st))
          = classes (el st) - {''touched'', ''touch-started'', ''touch-ended''}"
    by (auto simp: touchmove_def removeClass_def)
  then show ?thesis
    using assms(1) run_idle [OF cleared assms(2), of cfg sem] same by simp
qed

theorem move_cancels_cycle_witness:
  "truthy (cancelOnMove example_settings)
   \<and> \<not> is_TouchStart (Timeout 0 :: (bool, nat) input)
   \<and> \<not> is_TouchStart (TouchEnd 3 :: (bool, nat) input)
   \<and> calls (run True example_settings reads_rest [Timeout 0, TouchEnd 3]
        (dispatch True example_settings reads_rest (TouchMove 2)
          (run True example_settings reads_rest [TouchStart 1]
             (fresh (0::nat) {} True :: (nat, bool, nat, nat) page)))) = []"
  using move_cancels_cycle
    [of example_settings "[Timeout 0, TouchEnd 3 :: (bool, nat) input]" reads_rest 2
        "run True example_settings reads_rest [TouchStart 1]
           (fresh (0::nat) {} True :: (nat, bool, nat, nat) page)"]
  by (simp add: example_settings_def fresh_def handler_defs)

section \<open>A tap that ends before the delay\<close>

text \<open>
  C5. Where touch is supported, the callback is a function and \<^verbatim>\<open>onlyIf\<close> always
  holds, whatever the delay and the state of the page before: a \<^verbatim>\<open>touchstart\<close>, the
  \<^verbatim>\<open>touchend\<close> right after it and then the timeout of this \<^verbatim>\<open>touchstart\<close> (the newest
  one waiting) make exactly one call of the callback, made when the timeout fires, and
  \<^verbatim>\<open>'touched'\<close> is set after none of the three steps.
\<close>

theorem early_tap_fires_once:
  assumes "callback cfg = JFunction f"
      and "\<forall>e. call_onlyIf sem (onlyIf cfg) e = Inr True"
  shows "calls (run True cfg sem [TouchStart ev1, TouchEnd ev2, Timeout (length (timers st))] st)
           = calls st @ [\<lparr>fn = f, receiver = ident (el st), args = [ev1]\<rparr>]
       \<and> calls (run True cfg sem [TouchStart ev1, TouchEnd ev2] st) = calls st
       \<and> \<not> hasClass ''touched'' (el (run True cfg sem [TouchStart ev1] st))
       \<and> \<not> hasClass ''touched'' (el (run True cfg sem [TouchStart ev1, TouchEnd ev2] st))
       \<and> \<not> hasClass ''touched''
             (el (run True cfg sem [TouchStart ev1, TouchEnd ev2, Timeout (length (timers st))] st))"
  using assms by (simp add: handler_defs)

theorem early_tap_fires_once_witness:
  "callback example_settings = JFunction (User 7)
   \<and> (\<forall>e :: (nat, bool) element. call_onlyIf reads_rest (onlyIf example_settings) e = Inr True)
   \<and> calls (run True example_settings reads_rest [TouchStart 1, TouchEnd 2, Timeout 0]
              (fresh (0::nat) {} True :: (nat, bool, nat, nat) page))
       = [\<lparr>fn = User 7, receiver = 0, args = [1]\<rparr>]"
  using early_tap_fires_once
    [of example_settings "User 7" reads_rest "1::nat" "2::nat"
        "fresh (0::nat) {} True :: (nat, bool, nat, nat) page"]
  by (simp add: example_settings_def fresh_def)

section \<open>The guard at the moment of resolution\<close>




section \<open>A callback that is not a function\<close>

lemma dispatch_callback_irrelevant:
  assumes "el s = el s'" and "timers s = timers s'" and "prevented s = prevented s'"
  shows "el (dispatch ts cfg sem i s) = el (dispatch ts (cfg\<lparr>callback := cb\<rparr>) sem i s')
       \<and> timers (dispatch ts cfg sem i s) = timers (dispatch ts (cfg\<lparr>callback := cb\<rparr>) sem i s')
       \<and> prevented (dispatch ts cfg sem i s)
           = prevented (dispatch ts (cfg\<lparr>callback := cb\<rparr>) sem i s')"
  using assms
  by (cases i)
     (auto simp: touchstart_def touchend_def timeout_callback_def touchmove_def
                 click_suppress_def throw_def
           split: sum.splits)

lemma run_callback_irrelevant:
  assumes "el s = el s'" and "timers s = timers s'" and "prevented s = prevented s'"
  shows "el (run ts cfg sem es s) = el (run ts (cfg\<lparr>callback := cb\<rparr>) sem es s')
       \<and> timers (run ts cfg sem es s) = timers (run ts (cfg\<lparr>callback := cb\<rparr>) sem es s')
       \<and> prevented (run ts cfg sem es s) = prevented (run ts (cfg\<lparr>callback := cb\<rparr>) sem es s')"
  using assms
proof (induction es arbitrary: s s')
  case Nil
  then show ?case by simp
next
  case (Cons i es)
  show ?case
    using Cons.IH dispatch_callback_irrelevant [OF Cons.prems, of ts cfg sem i cb] by simp
qed

lemma dispatch_not_callable:
  assumes "typeof (callback cfg) \<noteq> ''function''"
  shows "calls (dispatch ts cfg sem i st) = calls st
       \<and> (typeof (onlyIf cfg) = ''function''
            \<longrightarrow> uncaught (dispatch ts cfg sem i st) = uncaught st)"
  using assms
  by (cases i)
     (auto simp: touchstart_def touchend_def timeout_callback_def touchmove_def
                 click_suppress_def throw_def fireCallback_not_callable call_onlyIf_function
           split: sum.splits)

lemma run_not_callable:
  assumes "typeof (callback cfg) \<noteq> ''function''"
  shows "calls (run ts cfg sem es st) = calls st
       \<and> (typeof (onlyIf cfg) = ''function'' \<longrightarrow> uncaught (run ts cfg sem es st) = uncaught st)"
proof (induction es arbitrary: st)
  case Nil
  show ?case by simp
next
  case (Cons i es)
  show ?case
    using Cons.IH [of "dispatch ts cfg sem i st"] dispatch_not_callable [OF assms, of ts sem i st]
    by simp
qed

text \<open>
  C9. When the callback of a binding is not a function, no sequence of events calls
  anything, with or without touch support, and where \<^verbatim>\<open>onlyIf\<close> is a function no
  error leaves a handler. The element, the timeouts waiting and the events whose
  default was prevented are, after every sequence of events, what they are for the
  same binding with a function \<open>f\<close> as callback; and where touch is supported a click
  has its default prevented and does nothing else. Reading an options object that
  holds such a callback raises no error either.
\<close>

theorem non_function_callback_never_called:
  assumes "typeof (callback cfg) \<noteq> ''function''"
  shows "calls (run ts cfg sem es st) = calls st
       \<and> (typeof (onlyIf cfg) = ''function'' \<longrightarrow> uncaught (run ts cfg sem es st) = uncaught st)
       \<and> el (run ts cfg sem es st) = el (run ts (cfg\<lparr>callback := JFunction f\<rparr>) sem es st)
       \<and> timers (run ts cfg sem es st) = timers (run ts (cfg\<lparr>callback := JFunction f\<rparr>) sem es st)
       \<and> prevented (run ts cfg sem es st)
           = prevented (run ts (cfg\<lparr>callback := JFunction f\<rparr>) sem es st)
       \<and> dispatch True cfg sem (Click ev) st = st\<lparr>prevented := prevented st @ [ev]\<rparr>
       \<and> read_options (JObject [(''callback'', callback cfg)])
           = Inr (initial_settings\<lparr>callback := callback cfg\<rparr>)"
  using run_not_callable [OF assms, of ts sem es st]
        run_callback_irrelevant [of st st ts cfg sem es "JFunction f"]
  by (simp add: click_suppress_def read_options_def override_def initial_settings_def)

theorem non_function_callback_never_called_witness:
  "typeof (callback broken_settings) \<noteq> ''function''
   \<and> typeof (onlyIf broken_settings) = ''function''
   \<and> calls (run True broken_settings reads_rest
              [TouchStart 1, Timeout 0, TouchEnd 2, Click 3, TouchStart 4, TouchEnd 5, Timeout 0]
              (fresh (0::nat) {} True :: (nat, bool, nat, nat) page)) = []
   \<and> uncaught (run True broken_settings reads_rest
              [TouchStart 1, Timeout 0, TouchEnd 2, Click 3, TouchStart 4, TouchEnd 5, Timeout 0]
              (fresh (0::nat) {} True :: (nat, bool, nat, nat) page)) = []"
  using non_function_callback_never_called
    [of broken_settings True reads_rest
        "[TouchStart 1, Timeout 0, TouchEnd 2, Click 3, TouchStart 4, TouchEnd 5, Timeout 0]"
        "fresh (0::nat) {} True :: (nat, bool, nat, nat) page"]
  by (simp add: broken_settings_def fresh_def)

section \<open>The event the callback receives\<close>

text \<open>
  C10. Where touch is supported, the callback is the function \<open>f\<close> and \<^verbatim>\<open>onlyIf\<close>
  holds: when \<^verbatim>\<open>touchend\<close> comes before the timeout, the timeout calls \<open>f\<close> with the
  event of the \<^verbatim>\<open>touchstart\<close> that scheduled it; when the timeout comes first and
  \<^verbatim>\<open>touchend\<close> reaches the highlighted element, \<^verbatim>\<open>touchend\<close> calls \<open>f\<close> with its own
  event. Either way the receiver is the element and the event is the only argument.
\<close>

theorem callback_receives_event:
  assumes "callback cfg = JFunction f"
      and "\<forall>e. call_onlyIf sem (onlyIf cfg) e = Inr True"
  shows "calls (run True cfg sem [TouchStart ev1, TouchEnd ev2, Timeout (length (timers st))] st)
           = calls st @ [\<lparr>fn = f, receiver = ident (el st), args = [ev1]\<rparr>]
       \<and> calls (run True cfg sem [TouchStart ev1, Timeout (length (timers st)), TouchEnd ev2] st)
           = calls st @ [\<lparr>fn = f, receiver = ident (el st), args = [ev2]\<rparr>]"
  using assms by (simp add: handler_defs)

theorem callback_receives_event_witness:
  "callback example_settings = JFunction (User 7)
   \<and> (\<forall>e :: (nat, bool) element. call_onlyIf reads_rest (onlyIf example_settings) e = Inr True)
   \<and> calls (run True example_settings reads_rest [TouchStart 1, TouchEnd 2, Timeout 0]
              (fresh (5::nat) {} True :: (nat, bool, nat, nat) page))
       = [\<lparr>fn = User 7, receiver = 5, args = [1]\<rparr>]
   \<and> calls (run True example_settings reads_rest [TouchStart 1, Timeout 0, TouchEnd 2]
              (fresh (5::nat) {} True :: (nat, bool, nat, nat) page))
       = [\<lparr>fn = User 7, receiver = 5, args = [2]\<rparr>]"
  using callback_receives_event
    [of example_settings "User 7" reads_rest "1::nat" "2::nat"
        "fresh (5::nat) {} True :: (nat, bool, nat, nat) page"]
  by (simp add: example_settings_def fresh_def)

end
